theory Spec2Isabelle
  imports Main
begin

section \<open>Values thrown and effects performed\<close>

text \<open>
  A JavaScript \<^verbatim>\<open>throw\<close> may carry any value. The sources only ever ask two things of a
  caught value: whether it is an \<^verbatim>\<open>Error\<close> instance (then its \<^verbatim>\<open>name\<close> and
  \<^verbatim>\<open>message\<close> are read), and otherwise what \<^verbatim>\<open>String(error)\<close> gives.
\<close>

datatype thrown =
    JsError (error_name: string) (error_message: string)
  | NonError (as_string: string)

text \<open>\<^verbatim>\<open>new Error(msg)\<close>: the name of a plain Error is the string Error.\<close>

definition new_Error :: "string \<Rightarrow> thrown" where
  "new_Error msg = JsError ''Error'' msg"

text \<open>\<^verbatim>\<open>error instanceof Error ? error.message : String(error)\<close>\<close>

fun message_or_string :: "thrown \<Rightarrow> string" where
  "message_or_string (JsError n m) = m"
| "message_or_string (NonError s) = s"

text \<open>
  Everything the three source files do to the outside world, in the order they do it:
  log lines and groups of \<^verbatim>\<open>@actions/core\<close>, the file system calls, the two AWS clients'
  requests, and the suspension between polls.
\<close>

datatype event =
    Info string
  | StartGroup string
  | EndGroup
  | SetFailed string
  | StatSync string
  | ReadFileSync string
  | S3PutObject "string option" string string string
  | SsmSendCommand "string option" string string "string list"
  | SsmGetCommandInvocation "string option" string string
  | Sleep nat

text \<open>An asynchronous call either rejects with a thrown value or resolves, after some effects.\<close>

type_synonym 'a promise = "(thrown + 'a) \<times> event list"

fun is_status_query :: "event \<Rightarrow> bool" where
  "is_status_query (SsmGetCommandInvocation cfg c i) = True"
| "is_status_query e = False"

fun is_sleep :: "event \<Rightarrow> bool" where
  "is_sleep (Sleep ms) = True"
| "is_sleep e = False"

fun is_put :: "event \<Rightarrow> bool" where
  "is_put (S3PutObject cfg b k body) = True"
| "is_put e = False"

fun is_send_command :: "event \<Rightarrow> bool" where
  "is_send_command (SsmSendCommand cfg i d cs) = True"
| "is_send_command e = False"

definition status_queries :: "event list \<Rightarrow> nat" where
  "status_queries evs = length (filter is_status_query evs)"

definition sleeps :: "event list \<Rightarrow> nat" where
  "sleeps evs = length (filter is_sleep evs)"

definition puts :: "event list \<Rightarrow> nat" where
  "puts evs = length (filter is_put evs)"

definition ssm_requests :: "event list \<Rightarrow> nat" where
  "ssm_requests evs = length (filter (\<lambda>e. is_send_command e \<or> is_status_query e) evs)"

section \<open>Numbers and strings as JavaScript prints them\<close>

definition digit_char :: "nat \<Rightarrow> char" where
  "digit_char d = ''0123456789'' ! d"

text \<open>
  A non-negative integer in a template literal: its decimal digits. \<open>digit_char\<close> is only
  ever asked for a digit below ten.
\<close>

function show_nat :: "nat \<Rightarrow> string" where
  "show_nat n = (if n < 10 then [digit_char n] else show_nat (n div 10) @ [digit_char (n mod 10)])"
  by pat_completeness auto
termination
  by (relation "measure id") auto

declare show_nat.simps [simp del]

text \<open>
  \<^verbatim>\<open>${(maxAttempts * delayMs) / 1000}\<close> with \<open>ms = maxAttempts * delayMs\<close> a non-negative
  integer: the quotient has at most three decimals, and JavaScript prints the shortest decimal
  that reads back as the same double, which is the quotient itself without trailing zeros
  (as long as \<open>ms\<close> stays below \<open>10^15\<close>, far beyond any polling budget).
\<close>

definition show_thousandths :: "nat \<Rightarrow> string" where
  "show_thousandths ms =
     (let whole = show_nat (ms div 1000);
          f = ms mod 1000
      in if f = 0 then whole
         else if f mod 100 = 0 then whole @ ''.'' @ [digit_char (f div 100)]
         else if f mod 10 = 0 then
           whole @ ''.'' @ [digit_char (f div 100), digit_char (f div 10 mod 10)]
         else whole @ ''.'' @
           [digit_char (f div 100), digit_char (f div 10 mod 10), digit_char (f mod 10)])"

text \<open>\<^verbatim>\<open>String.prototype.toLowerCase\<close> on the ASCII letters.\<close>

definition lower_char :: "char \<Rightarrow> char" where
  "lower_char c =
     (case map_of (zip ''ABCDEFGHIJKLMNOPQRSTUVWXYZ'' ''abcdefghijklmnopqrstuvwxyz'') c of
        None \<Rightarrow> c
      | Some l \<Rightarrow> l)"

definition toLowerCase :: "string \<Rightarrow> string" where
  "toLowerCase s = map lower_char s"

text \<open>\<^verbatim>\<open>x || d\<close> on an optional string: an absent and an empty string are both falsy.\<close>

fun or_else :: "string option \<Rightarrow> string \<Rightarrow> string" where
  "or_else None d = d"
| "or_else (Some s) d = (if s = [] then d else s)"

text \<open>An optional string in a template literal.\<close>

fun interpolate :: "string option \<Rightarrow> string" where
  "interpolate None = ''undefined''"
| "interpolate (Some s) = s"

section \<open>The data of \<^verbatim>\<open>types.ts\<close> and of the AWS responses\<close>

record ActionInputs =
  localPath :: string
  remotePath :: string
  instance_id :: string
  intermediateS3 :: string
  region :: "string option"

record S3UploadResult =
  bucket :: string
  key :: string
  s3Uri :: string

record SSMCommandResult =
  commandId :: string
  status :: string
  cmd_output :: "string option"

text \<open>The fields of a \<^verbatim>\<open>GetCommandInvocation\<close> response that the poller reads.\<close>

record invocation =
  Status :: "string option"
  StandardOutputContent :: "string option"
  StandardErrorContent :: "string option"

text \<open>\<^verbatim>\<open>fs.Stats\<close>, of which only \<^verbatim>\<open>isFile()\<close> is asked.\<close>

record Stats =
  isFile :: bool

text \<open>
  The external collaborators. Each answers a request with a thrown value or a response.
  The client configuration is \<^verbatim>\<open>region ? { region } : {}\<close>, so a request carries the
  region when it is a non-empty string. \<open>ssm_get_invocation k\<close> is the service's answer to
  the status query number \<open>k\<close> (from 0) of the run; \<open>ssm_send_command\<close> answers with
  \<^verbatim>\<open>response.Command?.CommandId\<close>.
\<close>

record env =
  getInput :: "string \<Rightarrow> bool \<Rightarrow> thrown + string"
  statSync :: "string \<Rightarrow> thrown + Stats"
  readFileSync :: "string \<Rightarrow> thrown + string"
  date_now :: nat
  s3_put_object :: "string option \<Rightarrow> string \<Rightarrow> string \<Rightarrow> string \<Rightarrow> thrown + unit"
  ssm_send_command :: "string option \<Rightarrow> string \<Rightarrow> string \<Rightarrow> string list \<Rightarrow> thrown + string option"
  ssm_get_invocation :: "nat \<Rightarrow> string option \<Rightarrow> string \<Rightarrow> string \<Rightarrow> thrown + invocation"

text \<open>\<^verbatim>\<open>region ? { region } : {}\<close>\<close>

fun client_config :: "string option \<Rightarrow> string option" where
  "client_config None = None"
| "client_config (Some r) = (if r = [] then None else Some r)"

section \<open>\<^verbatim>\<open>ssm-transfer.ts\<close>: the completion poller\<close>

text \<open>What one pass through the loop body decides.\<close>

datatype 'a step = Return 'a | Throw thrown | Continue

text \<open>
  The \<^verbatim>\<open>try\<close> block of one attempt, after the status query has answered with an
  invocation: the four branches on \<^verbatim>\<open>invocation.Status\<close>, in the source's order.
\<close>

definition on_invocation ::
  "string \<Rightarrow> nat \<Rightarrow> nat \<Rightarrow> nat \<Rightarrow> invocation \<Rightarrow> SSMCommandResult step \<times> event list" where
  "on_invocation cid maxAttempts delayMs attempt ivc =
     (if Status ivc = Some ''Success'' then
        (Return \<lparr>commandId = cid, status = ''Success'',
                 cmd_output = Some (or_else (StandardOutputContent ivc) '''')\<rparr>,
         [Info ''SSM command completed successfully''])
      else if Status ivc = Some ''Failed'' \<or> Status ivc = Some ''Cancelled'' then
        (Throw (new_Error (''SSM command '' @ toLowerCase (interpolate (Status ivc)) @ '': '' @
                           or_else (StandardErrorContent ivc) ''No error output'')), [])
      else if Status ivc = Some ''InProgress'' \<or> Status ivc = Some ''Pending'' \<or>
              Status ivc = Some ''Delayed'' then
        (Continue,
         [Info (''Attempt '' @ show_nat attempt @ ''/'' @ show_nat maxAttempts @
                '': Command status is '' @ interpolate (Status ivc)),
          Sleep delayMs])
      else
        (Throw (new_Error (''Unexpected SSM command status: '' @ interpolate (Status ivc))), []))"

text \<open>
  The \<^verbatim>\<open>catch\<close> block: it sees every value thrown inside the \<^verbatim>\<open>try\<close>, the client's
  as well as the two errors the \<^verbatim>\<open>try\<close> block throws itself.
\<close>

fun on_catch :: "nat \<Rightarrow> nat \<Rightarrow> nat \<Rightarrow> thrown \<Rightarrow> SSMCommandResult step \<times> event list" where
  "on_catch maxAttempts delayMs attempt (JsError n m) =
     (if n = ''InvocationDoesNotExist'' then
        (Continue,
         [Info (''Attempt '' @ show_nat attempt @ ''/'' @ show_nat maxAttempts @
                '': Command invocation not yet available''),
          Sleep delayMs])
      else (Throw (JsError n m), []))"
| "on_catch maxAttempts delayMs attempt (NonError s) = (Throw (NonError s), [])"

definition attempt_body ::
  "env \<Rightarrow> string option \<Rightarrow> string \<Rightarrow> string \<Rightarrow> nat \<Rightarrow> nat \<Rightarrow> nat \<Rightarrow>
   SSMCommandResult step \<times> event list" where
  "attempt_body E cfg cid iid maxAttempts delayMs attempt =
     (let (s, evs) =
        (case ssm_get_invocation E (attempt - 1) cfg cid iid of
           Inl err \<Rightarrow> (Throw err, [])
         | Inr ivc \<Rightarrow> on_invocation cid maxAttempts delayMs attempt ivc)
      in case s of
           Throw err \<Rightarrow>
             (let (s', evs') = on_catch maxAttempts delayMs attempt err
              in (s', SsmGetCommandInvocation cfg cid iid # evs @ evs'))
         | other \<Rightarrow> (other, SsmGetCommandInvocation cfg cid iid # evs))"

text \<open>\<^verbatim>\<open>for (let attempt = 1; attempt <= maxAttempts; attempt++)\<close> and the throw after it.\<close>

function poll_from ::
  "env \<Rightarrow> string option \<Rightarrow> string \<Rightarrow> string \<Rightarrow> nat \<Rightarrow> nat \<Rightarrow> nat \<Rightarrow> SSMCommandResult promise" where
  "poll_from E cfg cid iid maxAttempts delayMs attempt =
     (if attempt \<le> maxAttempts then
        (case attempt_body E cfg cid iid maxAttempts delayMs attempt of
           (Return r, evs) \<Rightarrow> (Inr r, evs)
         | (Throw err, evs) \<Rightarrow> (Inl err, evs)
         | (Continue, evs) \<Rightarrow>
             (let (res, rest) = poll_from E cfg cid iid maxAttempts delayMs (attempt + 1)
              in (res, evs @ rest)))
      else
        (Inl (new_Error (''SSM command did not complete within '' @
                         show_thousandths (maxAttempts * delayMs) @ '' seconds'')), []))"
  by pat_completeness auto
termination
  by (relation "measure (\<lambda>(E, cfg, cid, iid, maxAttempts, delayMs, attempt). maxAttempts + 1 - attempt)")
     auto

declare poll_from.simps [simp del]

definition waitForCommandCompletion ::
  "env \<Rightarrow> string option \<Rightarrow> string \<Rightarrow> string \<Rightarrow> nat \<Rightarrow> nat \<Rightarrow> SSMCommandResult promise" where
  "waitForCommandCompletion E cfg cid iid maxAttempts delayMs =
     (let (res, evs) = poll_from E cfg cid iid maxAttempts delayMs 1
      in (res, Info (''Waiting for SSM command '' @ cid @ '' to complete...'') # evs))"

section \<open>\<^verbatim>\<open>ssm-transfer.ts\<close>: dispatch\<close>

text \<open>\<^verbatim>\<open>!response.Command?.CommandId\<close>: an absent and an empty identifier are both falsy.\<close>

fun no_command_id :: "string option \<Rightarrow> bool" where
  "no_command_id None = True"
| "no_command_id (Some c) = (c = [])"

text \<open>The three shell commands, in the order they are sent.\<close>

definition transfer_commands :: "S3UploadResult \<Rightarrow> string \<Rightarrow> string list" where
  "transfer_commands s3Result remote =
     [''mkdir -p $(dirname '' @ remote @ '')'',
      ''aws s3 cp '' @ s3Uri s3Result @ '' '' @ remote,
      ''echo \"File transferred successfully to '' @ remote @ ''\"'']"

text \<open>
  The \<^verbatim>\<open>try\<close> block of \<^verbatim>\<open>transferFileViaSSM\<close>: send the command, require its identifier,
  then wait with the default budget of 60 attempts, 2000 ms apart.
\<close>

definition send_and_wait ::
  "env \<Rightarrow> string option \<Rightarrow> string \<Rightarrow> string list \<Rightarrow> SSMCommandResult promise" where
  "send_and_wait E cfg instanceId commands =
     (case ssm_send_command E cfg instanceId ''AWS-RunShellScript'' commands of
        Inl err \<Rightarrow> (Inl err, [SsmSendCommand cfg instanceId ''AWS-RunShellScript'' commands])
      | Inr cidopt \<Rightarrow>
          (if no_command_id cidopt then
             (Inl (new_Error ''SSM command was sent but no CommandId was returned''),
              [SsmSendCommand cfg instanceId ''AWS-RunShellScript'' commands])
           else
             (let cid = interpolate cidopt;
                  (res, evs) = waitForCommandCompletion E cfg cid instanceId 60 2000
              in (res, SsmSendCommand cfg instanceId ''AWS-RunShellScript'' commands #
                       Info (''SSM Command sent with ID: '' @ cid) # evs))))"

definition transferFileViaSSM ::
  "env \<Rightarrow> string \<Rightarrow> S3UploadResult \<Rightarrow> string \<Rightarrow> string option \<Rightarrow> SSMCommandResult promise" where
  "transferFileViaSSM E instanceId s3Result remote reg =
     (let announce = Info (''Executing SSM command on instance '' @ instanceId @
                           '' to download file from '' @ s3Uri s3Result)
      in case send_and_wait E (client_config reg) instanceId (transfer_commands s3Result remote) of
           (Inl err, evs) \<Rightarrow>
             (Inl (new_Error (''Failed to transfer file via SSM: '' @ message_or_string err)),
              announce # evs)
         | (Inr r, evs) \<Rightarrow> (Inr r, announce # evs))"

section \<open>\<^verbatim>\<open>s3-upload.ts\<close>\<close>

text \<open>\<^verbatim>\<open>bucketName.replace(/^s3:\/\//, "")\<close>\<close>

definition strip_s3_scheme :: "string \<Rightarrow> string" where
  "strip_s3_scheme bucketName =
     (if take 5 bucketName = ''s3://'' then drop 5 bucketName else bucketName)"

text \<open>
  \<^verbatim>\<open>basename\<close> of Node's \<^verbatim>\<open>path\<close> module with POSIX separators: the slashes at the end of
  the path are skipped, and the result is what stands after the last slash before them (the
  empty string when the path has nothing but slashes).
\<close>

definition basename :: "string \<Rightarrow> string" where
  "basename path =
     rev (takeWhile (\<lambda>c. c \<noteq> CHR ''/'') (dropWhile (\<lambda>c. c = CHR ''/'') (rev path)))"

text \<open>The first \<^verbatim>\<open>try\<close> block: the file must exist and be a regular file.\<close>

definition stat_check :: "env \<Rightarrow> string \<Rightarrow> thrown + unit" where
  "stat_check E path =
     (case statSync E path of
        Inl err \<Rightarrow> Inl err
      | Inr stats \<Rightarrow>
          (if \<not> isFile stats then Inl (new_Error (path @ '' is not a file'')) else Inr ()))"

definition staging_key :: "nat \<Rightarrow> string \<Rightarrow> string" where
  "staging_key timestamp path =
     ''github-actions-transfer/'' @ show_nat timestamp @ ''-'' @ basename path"

text \<open>The second \<^verbatim>\<open>try\<close> block: read the file, put it, compose the result.\<close>

definition read_and_put ::
  "env \<Rightarrow> string option \<Rightarrow> string \<Rightarrow> string \<Rightarrow> string \<Rightarrow> S3UploadResult promise" where
  "read_and_put E cfg path bkt k =
     (case readFileSync E path of
        Inl err \<Rightarrow> (Inl err, [ReadFileSync path])
      | Inr fileContent \<Rightarrow>
          (case s3_put_object E cfg bkt k fileContent of
             Inl err \<Rightarrow> (Inl err, [ReadFileSync path, S3PutObject cfg bkt k fileContent])
           | Inr u \<Rightarrow>
               (let uri = ''s3://'' @ bkt @ ''/'' @ k
                in (Inr \<lparr>bucket = bkt, key = k, s3Uri = uri\<rparr>,
                    [ReadFileSync path, S3PutObject cfg bkt k fileContent,
                     Info (''Successfully uploaded file to '' @ uri)]))))"

definition uploadFileToS3 ::
  "env \<Rightarrow> string \<Rightarrow> string \<Rightarrow> string option \<Rightarrow> S3UploadResult promise" where
  "uploadFileToS3 E path bucketName reg =
     (let bkt = strip_s3_scheme bucketName
      in case stat_check E path of
           Inl err \<Rightarrow>
             (Inl (new_Error (''Cannot access local file: '' @ path @ ''. '' @
                              message_or_string err)),
              [StatSync path])
         | Inr u \<Rightarrow>
             (let k = staging_key (date_now E) path;
                  announce = Info (''Uploading '' @ path @ '' to s3://'' @ bkt @ ''/'' @ k)
              in case read_and_put E (client_config reg) path bkt k of
                   (Inl err, evs) \<Rightarrow>
                     (Inl (new_Error (''Failed to upload file to S3: '' @ message_or_string err)),
                      StatSync path # announce # evs)
                 | (Inr r, evs) \<Rightarrow> (Inr r, StatSync path # announce # evs)))"

section \<open>\<^verbatim>\<open>main.ts\<close>: the orchestrator\<close>

text \<open>
  \<^verbatim>\<open>core.getInput\<close> is a collaborator: asked for a name, required or not, it answers with
  the value or throws. The five inputs are read in the source's order, and an empty region
  becomes \<^verbatim>\<open>undefined\<close>.
\<close>

definition getInputs :: "env \<Rightarrow> thrown + ActionInputs" where
  "getInputs E =
     (case getInput E ''local-path'' True of
        Inl err \<Rightarrow> Inl err
      | Inr lp \<Rightarrow>
     (case getInput E ''remote-path'' True of
        Inl err \<Rightarrow> Inl err
      | Inr rp \<Rightarrow>
     (case getInput E ''instance'' True of
        Inl err \<Rightarrow> Inl err
      | Inr ins \<Rightarrow>
     (case getInput E ''intermediate-s3'' True of
        Inl err \<Rightarrow> Inl err
      | Inr s3 \<Rightarrow>
     (case getInput E ''region'' False of
        Inl err \<Rightarrow> Inl err
      | Inr rg \<Rightarrow>
          Inr \<lparr>localPath = lp, remotePath = rp, instance_id = ins, intermediateS3 = s3,
               region = (if rg = [] then None else Some rg)\<rparr>)))))"

text \<open>The \<^verbatim>\<open>catch\<close> block of \<^verbatim>\<open>run\<close>.\<close>

fun report_failure :: "thrown \<Rightarrow> event" where
  "report_failure (JsError n m) = SetFailed m"
| "report_failure (NonError s) = SetFailed ''An unknown error occurred''"

definition announce_inputs :: "ActionInputs \<Rightarrow> event list" where
  "announce_inputs inputs =
     [Info (''Local path: '' @ localPath inputs),
      Info (''Remote path: '' @ remotePath inputs),
      Info (''Instance ID: '' @ instance_id inputs),
      Info (''S3 bucket: '' @ intermediateS3 inputs)] @
     (case region inputs of None \<Rightarrow> [] | Some rg \<Rightarrow> [Info (''AWS Region: '' @ rg)])"

text \<open>
  \<^verbatim>\<open>run\<close> resolves to nothing (\<^verbatim>\<open>Promise<void>\<close>) and never rejects: every thrown value
  ends in \<^verbatim>\<open>core.setFailed\<close>. The result of \<^verbatim>\<open>transferFileViaSSM\<close> is awaited and dropped.
\<close>

definition run :: "env \<Rightarrow> unit promise" where
  "run E =
     (Inr (),
      Info ''Starting file transfer to EC2 instance via S3 and SSM'' #
      (case getInputs E of
         Inl err \<Rightarrow> [report_failure err]
       | Inr inputs \<Rightarrow>
           announce_inputs inputs @ [StartGroup ''Uploading file to S3''] @
           (case uploadFileToS3 E (localPath inputs) (intermediateS3 inputs) (region inputs) of
              (Inl err, evs) \<Rightarrow> evs @ [report_failure err]
            | (Inr s3Result, evs) \<Rightarrow>
                evs @ [EndGroup, StartGroup ''Transferring file to EC2 instance via SSM''] @
                (case transferFileViaSSM E (instance_id inputs) s3Result (remotePath inputs)
                        (region inputs) of
                   (Inl err, evs') \<Rightarrow> evs' @ [report_failure err]
                 | (Inr r, evs') \<Rightarrow>
                     evs' @ [EndGroup, Info ''File transfer completed successfully!'']))))"

section \<open>Answers that keep the poller waiting, and a sample environment\<close>

text \<open>
  The answers to a status query after which the loop goes on to the next attempt: the three
  statuses of a command still under way, and the error named InvocationDoesNotExist.
\<close>

fun retried :: "thrown + invocation \<Rightarrow> bool" where
  "retried (Inl (JsError n m)) = (n = ''InvocationDoesNotExist'')"
| "retried (Inl (NonError s)) = False"
| "retried (Inr ivc) =
     (Status ivc = Some ''InProgress'' \<or> Status ivc = Some ''Pending'' \<or>
      Status ivc = Some ''Delayed'')"

text \<open>A service that answers the status queries from a list, one answer per query.\<close>

definition scripted ::
  "(thrown + invocation) list \<Rightarrow> nat \<Rightarrow> string option \<Rightarrow> string \<Rightarrow> string \<Rightarrow> thrown + invocation" where
  "scripted answers k cfg cid iid =
     (if k < length answers then answers ! k else Inl (NonError ''no answer scripted''))"

definition reply :: "string \<Rightarrow> string option \<Rightarrow> string option \<Rightarrow> thrown + invocation" where
  "reply st out err =
     Inr \<lparr>Status = Some st, StandardOutputContent = out, StandardErrorContent = err\<rparr>"

definition not_yet_visible :: "thrown + invocation" where
  "not_yet_visible = Inl (JsError ''InvocationDoesNotExist'' ''Invocation does not exist'')"

definition sample_inputs :: "string \<Rightarrow> string \<Rightarrow> bool \<Rightarrow> thrown + string" where
  "sample_inputs bucketName name required =
     Inr (if name = ''local-path'' then ''/tmp/build/app.tar''
          else if name = ''remote-path'' then ''/opt/app/app.tar''
          else if name = ''instance'' then ''i-0abc''
          else if name = ''intermediate-s3'' then bucketName
          else [])"

text \<open>
  An environment in which the file exists, the put and the submission succeed, the clock
  reads 1700000000123 ms, and the status queries are answered from the given list.
\<close>

definition sample_env :: "string \<Rightarrow> (thrown + invocation) list \<Rightarrow> env" where
  "sample_env bucketName answers =
     \<lparr>getInput = sample_inputs bucketName,
      statSync = (\<lambda>path. Inr \<lparr>isFile = True\<rparr>),
      readFileSync = (\<lambda>path. Inr ''payload''),
      date_now = 1700000000123,
      s3_put_object = (\<lambda>cfg bkt k body. Inr ()),
      ssm_send_command = (\<lambda>cfg i doc cs. Inr (Some ''cmd-1'')),
      ssm_get_invocation = scripted answers\<rparr>"

section \<open>Properties\<close>

subsection \<open>The completion poller\<close>

lemma status_queries_simps [simp]:
  "status_queries [] = 0"
  "status_queries (e # evs) = (if is_status_query e then 1 else 0) + status_queries evs"
  "status_queries (evs @ evs') = status_queries evs + status_queries evs'"
  by (simp_all add: status_queries_def)

lemma sleeps_simps [simp]:
  "sleeps [] = 0"
  "sleeps (e # evs) = (if is_sleep e then 1 else 0) + sleeps evs"
  "sleeps (evs @ evs') = sleeps evs + sleeps evs'"
  by (simp_all add: sleeps_def)

lemma attempt_body_retried:
  assumes "retried (ssm_get_invocation E (a - 1) cfg cid iid)"
  shows "\<exists>msg. attempt_body E cfg cid iid M d a =
           (Continue, [SsmGetCommandInvocation cfg cid iid, Info msg, Sleep d])"
proof (cases "ssm_get_invocation E (a - 1) cfg cid iid")
  case (Inl err)
  with assms show ?thesis
    by (cases err) (simp_all add: attempt_body_def)
next
  case (Inr ivc)
  with assms show ?thesis
    by (auto simp add: attempt_body_def on_invocation_def)
qed

lemma poll_from_retried:
  assumes "a \<le> M" and "retried (ssm_get_invocation E (a - 1) cfg cid iid)"
  shows "\<exists>msg. poll_from E cfg cid iid M d a =
           (fst (poll_from E cfg cid iid M d (a + 1)),
            [SsmGetCommandInvocation cfg cid iid, Info msg, Sleep d] @
            snd (poll_from E cfg cid iid M d (a + 1)))"
proof -
  from attempt_body_retried [OF assms(2)] obtain msg where
    "attempt_body E cfg cid iid M d a =
       (Continue, [SsmGetCommandInvocation cfg cid iid, Info msg, Sleep d])" by blast
  with assms(1) show ?thesis
    by (subst poll_from.simps) (auto simp add: split_beta)
qed

text \<open>Any number of retried polls in a row, from attempt \<open>a\<close> on.\<close>

lemma poll_from_skip:
  assumes "\<forall>j<n. retried (ssm_get_invocation E (a - 1 + j) cfg cid iid)"
    and "a + n \<le> M + 1" and "1 \<le> a"
  shows "\<exists>pre. poll_from E cfg cid iid M d a =
           (fst (poll_from E cfg cid iid M d (a + n)),
            pre @ snd (poll_from E cfg cid iid M d (a + n))) \<and>
           status_queries pre = n \<and> sleeps pre = n"
  using assms
proof (induction n arbitrary: a)
  case 0
  show ?case by (rule exI [of _ "[]"]) simp
next
  case (Suc n)
  from Suc.prems have first: "retried (ssm_get_invocation E (a - 1) cfg cid iid)"
    by (metis add.right_neutral zero_less_Suc)
  from Suc.prems have le: "a \<le> M" by simp
  from poll_from_retried [OF le first, of d] obtain msg where step:
    "poll_from E cfg cid iid M d a =
       (fst (poll_from E cfg cid iid M d (a + 1)),
        [SsmGetCommandInvocation cfg cid iid, Info msg, Sleep d] @
        snd (poll_from E cfg cid iid M d (a + 1)))" by blast
  have "\<forall>j<n. retried (ssm_get_invocation E (a + 1 - 1 + j) cfg cid iid)"
  proof (intro allI impI)
    fix j assume "j < n"
    then have "Suc j < Suc n" by simp
    with Suc.prems(1) have "retried (ssm_get_invocation E (a - 1 + Suc j) cfg cid iid)" by blast
    moreover have "a - 1 + Suc j = a + 1 - 1 + j" using Suc.prems(3) by simp
    ultimately show "retried (ssm_get_invocation E (a + 1 - 1 + j) cfg cid iid)" by simp
  qed
  moreover have "a + 1 + n \<le> M + 1" "1 \<le> a + 1" using Suc.prems by simp_all
  ultimately obtain pre where pre:
    "poll_from E cfg cid iid M d (a + 1) =
       (fst (poll_from E cfg cid iid M d (a + 1 + n)),
        pre @ snd (poll_from E cfg cid iid M d (a + 1 + n)))"
    "status_queries pre = n" "sleeps pre = n"
    using Suc.IH [of "a + 1"] by blast
  have eq: "a + 1 + n = a + Suc n" by simp
  show ?case
    apply (rule exI [of _ "[SsmGetCommandInvocation cfg cid iid, Info msg, Sleep d] @ pre"])
    using step pre unfolding eq by simp
qed


lemma poll_from_continue:
  "a \<le> M \<Longrightarrow> attempt_body E cfg cid iid M d a = (Continue, evs) \<Longrightarrow>
   poll_from E cfg cid iid M d a =
     (fst (poll_from E cfg cid iid M d (a + 1)), evs @ snd (poll_from E cfg cid iid M d (a + 1)))"
  by (subst poll_from.simps) (simp add: split_beta)

lemma poll_from_return:
  "a \<le> M \<Longrightarrow> attempt_body E cfg cid iid M d a = (Return r, evs) \<Longrightarrow>
   poll_from E cfg cid iid M d a = (Inr r, evs)"
  by (subst poll_from.simps) simp

lemma poll_from_throw:
  "a \<le> M \<Longrightarrow> attempt_body E cfg cid iid M d a = (Throw err, evs) \<Longrightarrow>
   poll_from E cfg cid iid M d a = (Inl err, evs)"
  by (subst poll_from.simps) simp


text \<open>
  Claim C1. When the first status query fails with InvocationDoesNotExist, the second reports
  Pending, the third InProgress and the fourth Success with standard output ok, and the budget
  is at least four attempts, the poller resolves to status Success with output ok. It has then
  issued exactly four status queries and slept exactly three times: the query that found no
  invocation is followed by a log line and a sleep of \<open>delayMs\<close>, as the queries that found
  the command under way are.
\<close>

theorem poller_scripted_success:
  assumes "4 \<le> maxAttempts"
    and "ssm_get_invocation E 0 cfg cid iid = Inl (JsError ''InvocationDoesNotExist'' m)"
    and "ssm_get_invocation E 1 cfg cid iid = Inr i1" and "Status i1 = Some ''Pending''"
    and "ssm_get_invocation E 2 cfg cid iid = Inr i2" and "Status i2 = Some ''InProgress''"
    and "ssm_get_invocation E 3 cfg cid iid = Inr i3" and "Status i3 = Some ''Success''"
    and "StandardOutputContent i3 = Some ''ok''"
  shows "waitForCommandCompletion E cfg cid iid maxAttempts delayMs =
           (Inr \<lparr>commandId = cid, status = ''Success'', cmd_output = Some ''ok''\<rparr>,
            [Info (''Waiting for SSM command '' @ cid @ '' to complete...''),
             SsmGetCommandInvocation cfg cid iid,
             Info (''Attempt 1/'' @ show_nat maxAttempts @ '': Command invocation not yet available''),
             Sleep delayMs,
             SsmGetCommandInvocation cfg cid iid,
             Info (''Attempt 2/'' @ show_nat maxAttempts @ '': Command status is Pending''),
             Sleep delayMs,
             SsmGetCommandInvocation cfg cid iid,
             Info (''Attempt 3/'' @ show_nat maxAttempts @ '': Command status is InProgress''),
             Sleep delayMs,
             SsmGetCommandInvocation cfg cid iid,
             Info ''SSM command completed successfully''])
         \<and> status_queries (snd (waitForCommandCompletion E cfg cid iid maxAttempts delayMs)) = 4
         \<and> sleeps (snd (waitForCommandCompletion E cfg cid iid maxAttempts delayMs)) = 3"
proof -
  have digits: "show_nat (Suc 0) = ''1''" "show_nat 2 = ''2''" "show_nat 3 = ''3''"
    by (simp_all add: show_nat.simps digit_char_def)
  let ?q = "SsmGetCommandInvocation cfg cid iid"
  have b1: "attempt_body E cfg cid iid maxAttempts delayMs 1 =
      (Continue, [?q, Info (''Attempt 1/'' @ show_nat maxAttempts @ '': Command invocation not yet available''), Sleep delayMs])"
    using assms(2) by (simp add: attempt_body_def digits)
  have b2: "attempt_body E cfg cid iid maxAttempts delayMs 2 =
      (Continue, [?q, Info (''Attempt 2/'' @ show_nat maxAttempts @ '': Command status is Pending''), Sleep delayMs])"
    using assms(3,4) by (simp add: attempt_body_def on_invocation_def digits)
  have b3: "attempt_body E cfg cid iid maxAttempts delayMs 3 =
      (Continue, [?q, Info (''Attempt 3/'' @ show_nat maxAttempts @ '': Command status is InProgress''), Sleep delayMs])"
    using assms(5,6) by (simp add: attempt_body_def on_invocation_def digits)
  have b4: "attempt_body E cfg cid iid maxAttempts delayMs 4 =
      (Return \<lparr>commandId = cid, status = ''Success'', cmd_output = Some ''ok''\<rparr>,
       [?q, Info ''SSM command completed successfully''])"
    using assms(7,8,9) by (simp add: attempt_body_def on_invocation_def)
  have p4: "poll_from E cfg cid iid maxAttempts delayMs 4 =
      (Inr \<lparr>commandId = cid, status = ''Success'', cmd_output = Some ''ok''\<rparr>,
       [?q, Info ''SSM command completed successfully''])"
    using assms(1) b4 by (simp add: poll_from_return)
  have p3: "poll_from E cfg cid iid maxAttempts delayMs 3 =
      (fst (poll_from E cfg cid iid maxAttempts delayMs 4),
       [?q, Info (''Attempt 3/'' @ show_nat maxAttempts @ '': Command status is InProgress''), Sleep delayMs] @ snd (poll_from E cfg cid iid maxAttempts delayMs 4))"
  proof -
    have le: "(3::nat) \<le> maxAttempts" using assms(1) by simp
    have nxt: "(3::nat) + 1 = 4" by simp
    from poll_from_continue [OF le b3] show ?thesis unfolding nxt by simp
  qed
  have p2: "poll_from E cfg cid iid maxAttempts delayMs 2 =
      (fst (poll_from E cfg cid iid maxAttempts delayMs 3),
       [?q, Info (''Attempt 2/'' @ show_nat maxAttempts @ '': Command status is Pending''), Sleep delayMs] @ snd (poll_from E cfg cid iid maxAttempts delayMs 3))"
  proof -
    have le: "(2::nat) \<le> maxAttempts" using assms(1) by simp
    have nxt: "(2::nat) + 1 = 3" by simp
    from poll_from_continue [OF le b2] show ?thesis unfolding nxt by simp
  qed
  have p1: "poll_from E cfg cid iid maxAttempts delayMs 1 =
      (fst (poll_from E cfg cid iid maxAttempts delayMs 2),
       [?q, Info (''Attempt 1/'' @ show_nat maxAttempts @ '': Command invocation not yet available''), Sleep delayMs] @ snd (poll_from E cfg cid iid maxAttempts delayMs 2))"
  proof -
    have le: "(1::nat) \<le> maxAttempts" using assms(1) by simp
    have nxt: "(1::nat) + 1 = 2" by simp
    from poll_from_continue [OF le b1] show ?thesis unfolding nxt by simp
  qed
  have run: "waitForCommandCompletion E cfg cid iid maxAttempts delayMs =
           (Inr \<lparr>commandId = cid, status = ''Success'', cmd_output = Some ''ok''\<rparr>,
            [Info (''Waiting for SSM command '' @ cid @ '' to complete...''),
             ?q,
             Info (''Attempt 1/'' @ show_nat maxAttempts @ '': Command invocation not yet available''),
             Sleep delayMs,
             ?q,
             Info (''Attempt 2/'' @ show_nat maxAttempts @ '': Command status is Pending''),
             Sleep delayMs,
             ?q,
             Info (''Attempt 3/'' @ show_nat maxAttempts @ '': Command status is InProgress''),
             Sleep delayMs,
             ?q,
             Info ''SSM command completed successfully''])"
    unfolding waitForCommandCompletion_def p1 p2 p3 p4 by simp
  show ?thesis unfolding run by simp
qed


text \<open>The scripted run of claim C1 with the default budget of 60 attempts, 2000 ms apart.\<close>

theorem poller_scripted_success_witness:
  "waitForCommandCompletion
     (sample_env ''staging''
        [not_yet_visible, reply ''Pending'' None None, reply ''InProgress'' None None,
         reply ''Success'' (Some ''ok'') None])
     None ''cmd-1'' ''i-0abc'' 60 2000 =
     (Inr \<lparr>commandId = ''cmd-1'', status = ''Success'', cmd_output = Some ''ok''\<rparr>,
      [Info ''Waiting for SSM command cmd-1 to complete...'',
       SsmGetCommandInvocation None ''cmd-1'' ''i-0abc'',
       Info ''Attempt 1/60: Command invocation not yet available'',
       Sleep 2000,
       SsmGetCommandInvocation None ''cmd-1'' ''i-0abc'',
       Info ''Attempt 2/60: Command status is Pending'',
       Sleep 2000,
       SsmGetCommandInvocation None ''cmd-1'' ''i-0abc'',
       Info ''Attempt 3/60: Command status is InProgress'',
       Sleep 2000,
       SsmGetCommandInvocation None ''cmd-1'' ''i-0abc'',
       Info ''SSM command completed successfully''])"
proof -
  have sixty: "show_nat 60 = ''60''"
    by (simp add: show_nat.simps digit_char_def)
  show ?thesis
    using poller_scripted_success [of 60 "sample_env ''staging''
        [not_yet_visible, reply ''Pending'' None None, reply ''InProgress'' None None,
         reply ''Success'' (Some ''ok'') None]" None "''cmd-1''" "''i-0abc''"
        "''Invocation does not exist''"
        "\<lparr>Status = Some ''Pending'', StandardOutputContent = None, StandardErrorContent = None\<rparr>"
        "\<lparr>Status = Some ''InProgress'', StandardOutputContent = None, StandardErrorContent = None\<rparr>"
        "\<lparr>Status = Some ''Success'', StandardOutputContent = Some ''ok'', StandardErrorContent = None\<rparr>"
        2000]
    by (simp add: sample_env_def scripted_def reply_def not_yet_visible_def sixty)
qed


lemma wait_after_retries:
  assumes "k \<le> M" and "\<forall>j<k. retried (ssm_get_invocation E j cfg cid iid)"
  shows "\<exists>pre. waitForCommandCompletion E cfg cid iid M d =
           (fst (poll_from E cfg cid iid M d (k + 1)),
            pre @ snd (poll_from E cfg cid iid M d (k + 1))) \<and>
           status_queries pre = k \<and> sleeps pre = k"
proof -
  have "\<forall>j<k. retried (ssm_get_invocation E (1 - 1 + j) cfg cid iid)"
    using assms(2) by simp
  moreover have "1 + k \<le> M + 1" using assms(1) by simp
  ultimately obtain pre where pre:
    "poll_from E cfg cid iid M d 1 =
       (fst (poll_from E cfg cid iid M d (1 + k)), pre @ snd (poll_from E cfg cid iid M d (1 + k)))"
    "status_queries pre = k" "sleeps pre = k"
    using poll_from_skip [of k E 1 cfg cid iid M d] by auto
  have eq: "1 + k = k + 1" by simp
  show ?thesis
    apply (rule exI [of _ "Info (''Waiting for SSM command '' @ cid @ '' to complete...'') # pre"])
    using pre unfolding eq waitForCommandCompletion_def by simp
qed

lemma wait_throws_after_retries:
  assumes "k < M" and "\<forall>j<k. retried (ssm_get_invocation E j cfg cid iid)"
    and "attempt_body E cfg cid iid M d (k + 1) = (Throw err, [SsmGetCommandInvocation cfg cid iid])"
  shows "fst (waitForCommandCompletion E cfg cid iid M d) = Inl err \<and>
         status_queries (snd (waitForCommandCompletion E cfg cid iid M d)) = k + 1 \<and>
         sleeps (snd (waitForCommandCompletion E cfg cid iid M d)) = k \<and>
         last (snd (waitForCommandCompletion E cfg cid iid M d)) = SsmGetCommandInvocation cfg cid iid"
proof -
  from assms(1) have le: "k \<le> M" and le': "k + 1 \<le> M" by simp_all
  from wait_after_retries [OF le assms(2), of d] obtain pre where pre:
    "waitForCommandCompletion E cfg cid iid M d =
       (fst (poll_from E cfg cid iid M d (k + 1)), pre @ snd (poll_from E cfg cid iid M d (k + 1)))"
    "status_queries pre = k" "sleeps pre = k" by blast
  from poll_from_throw [OF le' assms(3)] pre show ?thesis by simp
qed





text \<open>
  Claim C3, as the code has it. When a status query, after any number of retried ones, reports
  exactly Failed or exactly Cancelled, the poller rejects at once: the message is
  \<open>SSM command failed: \<close> or \<open>SSM command cancelled: \<close> followed by the captured standard
  error, or by \<open>No error output\<close> when none (or an empty one) was captured; that query is the
  last thing the poller does. The status is compared as reported; it is put in lower case
  only inside the message.
\<close>

theorem poller_failed_or_cancelled:
  assumes "k < maxAttempts"
    and "\<forall>j<k. retried (ssm_get_invocation E j cfg cid iid)"
    and "ssm_get_invocation E k cfg cid iid = Inr ivc"
    and "Status ivc = Some ''Failed'' \<or> Status ivc = Some ''Cancelled''"
  shows "fst (waitForCommandCompletion E cfg cid iid maxAttempts delayMs) =
           Inl (new_Error (''SSM command '' @
                  (if Status ivc = Some ''Failed'' then ''failed'' else ''cancelled'') @ '': '' @
                  or_else (StandardErrorContent ivc) ''No error output'')) \<and>
         status_queries (snd (waitForCommandCompletion E cfg cid iid maxAttempts delayMs)) = k + 1 \<and>
         sleeps (snd (waitForCommandCompletion E cfg cid iid maxAttempts delayMs)) = k \<and>
         last (snd (waitForCommandCompletion E cfg cid iid maxAttempts delayMs)) =
           SsmGetCommandInvocation cfg cid iid"
proof -
  have low: "toLowerCase ''Failed'' = ''failed''" "toLowerCase ''Cancelled'' = ''cancelled''"
    by (simp_all add: toLowerCase_def lower_char_def)
  have "attempt_body E cfg cid iid maxAttempts delayMs (k + 1) =
          (Throw (new_Error (''SSM command '' @
                  (if Status ivc = Some ''Failed'' then ''failed'' else ''cancelled'') @ '': '' @
                  or_else (StandardErrorContent ivc) ''No error output'')),
           [SsmGetCommandInvocation cfg cid iid])"
    using assms(3,4) by (auto simp add: attempt_body_def on_invocation_def new_Error_def low)
  from wait_throws_after_retries [OF assms(1,2) this] show ?thesis .
qed

text \<open>Failed with standard error \<open>disk full\<close> on the second poll.\<close>

theorem poller_failed_or_cancelled_witness:
  "fst (waitForCommandCompletion
          (sample_env ''staging'' [reply ''Pending'' None None, reply ''Failed'' None (Some ''disk full'')])
          None ''cmd-1'' ''i-0abc'' 60 2000) =
     Inl (JsError ''Error'' ''SSM command failed: disk full'') \<and>
   status_queries (snd (waitForCommandCompletion
          (sample_env ''staging'' [reply ''Pending'' None None, reply ''Failed'' None (Some ''disk full'')])
          None ''cmd-1'' ''i-0abc'' 60 2000)) = 2 \<and>
   sleeps (snd (waitForCommandCompletion
          (sample_env ''staging'' [reply ''Pending'' None None, reply ''Failed'' None (Some ''disk full'')])
          None ''cmd-1'' ''i-0abc'' 60 2000)) = 1"
proof -
  let ?E = "sample_env ''staging'' [reply ''Pending'' None None, reply ''Failed'' None (Some ''disk full'')]"
  let ?ivc = "\<lparr>Status = Some ''Failed'', StandardOutputContent = None,
               StandardErrorContent = Some ''disk full''\<rparr>"
  have h1: "(1::nat) < 60" by simp
  have h2: "\<forall>j<1. retried (ssm_get_invocation ?E j None ''cmd-1'' ''i-0abc'')"
    by (simp add: sample_env_def scripted_def reply_def)
  have h3: "ssm_get_invocation ?E 1 None ''cmd-1'' ''i-0abc'' = Inr ?ivc"
    by (simp add: sample_env_def scripted_def reply_def)
  have h4: "Status ?ivc = Some ''Failed'' \<or> Status ?ivc = Some ''Cancelled''" by simp
  from poller_failed_or_cancelled [OF h1 h2 h3 h4, of 2000] show ?thesis
    by (simp add: new_Error_def)
qed

text \<open>
  Claim C3 as stated fails: the status FAILED equals Failed after case normalization, yet the
  poller does not report the captured standard error; it rejects the status as unexpected.
\<close>

theorem poller_status_compared_case_sensitively:
  "toLowerCase ''FAILED'' = toLowerCase ''Failed'' \<and>
   fst (waitForCommandCompletion
          (sample_env ''staging'' [reply ''FAILED'' None (Some ''disk full'')])
          None ''cmd-1'' ''i-0abc'' 60 2000) =
     Inl (JsError ''Error'' ''Unexpected SSM command status: FAILED'')"
proof -
  let ?E = "sample_env ''staging'' [reply ''FAILED'' None (Some ''disk full'')]"
  have "attempt_body ?E None ''cmd-1'' ''i-0abc'' 60 2000 1 =
          (Throw (JsError ''Error'' ''Unexpected SSM command status: FAILED''),
           [SsmGetCommandInvocation None ''cmd-1'' ''i-0abc''])"
    by (simp add: attempt_body_def on_invocation_def sample_env_def scripted_def reply_def
        new_Error_def)
  then have "poll_from ?E None ''cmd-1'' ''i-0abc'' 60 2000 1 =
          (Inl (JsError ''Error'' ''Unexpected SSM command status: FAILED''),
           [SsmGetCommandInvocation None ''cmd-1'' ''i-0abc''])"
    by (simp add: poll_from_throw)
  then show ?thesis
    by (simp add: waitForCommandCompletion_def toLowerCase_def lower_char_def)
qed

text \<open>
  Claim C4. When a status query, after any number of retried ones, reports a status outside
  Pending, Delayed, InProgress, Success, Failed and Cancelled (or none at all), the poller
  rejects at once with \<open>Unexpected SSM command status: \<close> and the status; that query is the
  last thing the poller does, so neither a further query nor a sleep follows it.
\<close>

theorem poller_unexpected_status:
  assumes "k < maxAttempts"
    and "\<forall>j<k. retried (ssm_get_invocation E j cfg cid iid)"
    and "ssm_get_invocation E k cfg cid iid = Inr ivc"
    and "Status ivc \<notin> Some ` {''Pending'', ''Delayed'', ''InProgress'', ''Success'', ''Failed'',
                                ''Cancelled''}"
  shows "fst (waitForCommandCompletion E cfg cid iid maxAttempts delayMs) =
           Inl (new_Error (''Unexpected SSM command status: '' @ interpolate (Status ivc))) \<and>
         status_queries (snd (waitForCommandCompletion E cfg cid iid maxAttempts delayMs)) = k + 1 \<and>
         sleeps (snd (waitForCommandCompletion E cfg cid iid maxAttempts delayMs)) = k \<and>
         last (snd (waitForCommandCompletion E cfg cid iid maxAttempts delayMs)) =
           SsmGetCommandInvocation cfg cid iid"
proof -
  have "attempt_body E cfg cid iid maxAttempts delayMs (k + 1) =
          (Throw (new_Error (''Unexpected SSM command status: '' @ interpolate (Status ivc))),
           [SsmGetCommandInvocation cfg cid iid])"
    using assms(3,4) by (simp add: attempt_body_def on_invocation_def new_Error_def)
  from wait_throws_after_retries [OF assms(1,2) this] show ?thesis .
qed

text \<open>The status Throttled on the first poll: one query, no sleep, although a Success would follow.\<close>

theorem poller_unexpected_status_witness:
  "fst (waitForCommandCompletion
          (sample_env ''staging'' [reply ''Throttled'' None None, reply ''Success'' None None])
          None ''cmd-1'' ''i-0abc'' 60 2000) =
     Inl (JsError ''Error'' ''Unexpected SSM command status: Throttled'') \<and>
   status_queries (snd (waitForCommandCompletion
          (sample_env ''staging'' [reply ''Throttled'' None None, reply ''Success'' None None])
          None ''cmd-1'' ''i-0abc'' 60 2000)) = 1 \<and>
   sleeps (snd (waitForCommandCompletion
          (sample_env ''staging'' [reply ''Throttled'' None None, reply ''Success'' None None])
          None ''cmd-1'' ''i-0abc'' 60 2000)) = 0"
proof -
  let ?E = "sample_env ''staging'' [reply ''Throttled'' None None, reply ''Success'' None None]"
  let ?ivc = "\<lparr>Status = Some ''Throttled'', StandardOutputContent = None,
               StandardErrorContent = None\<rparr>"
  have h1: "(0::nat) < 60" by simp
  have h2: "\<forall>j<0. retried (ssm_get_invocation ?E j None ''cmd-1'' ''i-0abc'')" by simp
  have h3: "ssm_get_invocation ?E 0 None ''cmd-1'' ''i-0abc'' = Inr ?ivc"
    by (simp add: sample_env_def scripted_def reply_def)
  have h4: "Status ?ivc \<notin> Some ` {''Pending'', ''Delayed'', ''InProgress'', ''Success'', ''Failed'',
                                ''Cancelled''}" by simp
  from poller_unexpected_status [OF h1 h2 h3 h4, of 2000] show ?thesis
    by (simp add: new_Error_def)
qed


subsection \<open>Dispatch\<close>

text \<open>
  Claim C7. When the submission succeeds but its response carries no command identifier (none,
  or an empty one), \<^verbatim>\<open>transferFileViaSSM\<close> rejects with a message reporting that no
  CommandId was returned, and the submission is the last request it makes: no status query is
  issued.
\<close>

theorem dispatch_without_command_id:
  assumes "ssm_send_command E (client_config reg) instanceId ''AWS-RunShellScript''
             (transfer_commands s3Result remote) = Inr cidopt"
    and "no_command_id cidopt"
  shows "transferFileViaSSM E instanceId s3Result remote reg =
           (Inl (new_Error (''Failed to transfer file via SSM: '' @
                            ''SSM command was sent but no CommandId was returned'')),
            [Info (''Executing SSM command on instance '' @ instanceId @
                   '' to download file from '' @ s3Uri s3Result),
             SsmSendCommand (client_config reg) instanceId ''AWS-RunShellScript''
               (transfer_commands s3Result remote)]) \<and>
         status_queries (snd (transferFileViaSSM E instanceId s3Result remote reg)) = 0"
proof -
  have "send_and_wait E (client_config reg) instanceId (transfer_commands s3Result remote) =
          (Inl (new_Error ''SSM command was sent but no CommandId was returned''),
           [SsmSendCommand (client_config reg) instanceId ''AWS-RunShellScript''
              (transfer_commands s3Result remote)])"
    using assms by (simp add: send_and_wait_def)
  then have eq: "transferFileViaSSM E instanceId s3Result remote reg =
           (Inl (new_Error (''Failed to transfer file via SSM: '' @
                            ''SSM command was sent but no CommandId was returned'')),
            [Info (''Executing SSM command on instance '' @ instanceId @
                   '' to download file from '' @ s3Uri s3Result),
             SsmSendCommand (client_config reg) instanceId ''AWS-RunShellScript''
               (transfer_commands s3Result remote)])"
    by (simp add: transferFileViaSSM_def new_Error_def)
  show ?thesis unfolding eq by simp
qed

text \<open>A submission answered without an identifier, against a service that would report Success.\<close>

theorem dispatch_without_command_id_witness:
  "fst (transferFileViaSSM
          ((sample_env ''staging'' [reply ''Success'' (Some ''ok'') None])
             \<lparr>ssm_send_command := (\<lambda>cfg i doc cs. Inr None)\<rparr>)
          ''i-0abc''
          \<lparr>bucket = ''staging'', key = ''k'', s3Uri = ''s3://staging/k''\<rparr>
          ''/opt/app/app.tar'' None) =
     Inl (JsError ''Error''
       ''Failed to transfer file via SSM: SSM command was sent but no CommandId was returned'') \<and>
   status_queries (snd (transferFileViaSSM
          ((sample_env ''staging'' [reply ''Success'' (Some ''ok'') None])
             \<lparr>ssm_send_command := (\<lambda>cfg i doc cs. Inr None)\<rparr>)
          ''i-0abc''
          \<lparr>bucket = ''staging'', key = ''k'', s3Uri = ''s3://staging/k''\<rparr>
          ''/opt/app/app.tar'' None)) = 0"
proof -
  let ?E = "(sample_env ''staging'' [reply ''Success'' (Some ''ok'') None])
             \<lparr>ssm_send_command := (\<lambda>cfg i doc cs. Inr None)\<rparr>"
  let ?r = "\<lparr>bucket = ''staging'', key = ''k'', s3Uri = ''s3://staging/k''\<rparr>"
  have h1: "ssm_send_command ?E (client_config None) ''i-0abc'' ''AWS-RunShellScript''
             (transfer_commands ?r ''/opt/app/app.tar'') = Inr None"
    by (simp add: sample_env_def)
  have h2: "no_command_id None" by simp
  from dispatch_without_command_id [OF h1 h2] show ?thesis
    by (simp add: new_Error_def)
qed

subsection \<open>Staging\<close>

lemma puts_simps [simp]:
  "puts [] = 0"
  "puts (e # evs) = (if is_put e then 1 else 0) + puts evs"
  by (simp_all add: puts_def)

text \<open>
  Claim C8. When \<^verbatim>\<open>statSync\<close> throws (the path is missing) or answers with something that is
  not a regular file (a directory), \<^verbatim>\<open>uploadFileToS3\<close> rejects with
  \<open>Cannot access local file: \<close>, the path and the cause. The stat call is all it has done by
  then: the file is not read and no put is issued.
\<close>

theorem upload_rejects_missing_or_non_file:
  assumes "case statSync E path of Inl err \<Rightarrow> True | Inr stats \<Rightarrow> \<not> isFile stats"
  shows "uploadFileToS3 E path bucketName reg =
           (Inl (new_Error (''Cannot access local file: '' @ path @ ''. '' @
                   (case statSync E path of
                      Inl err \<Rightarrow> message_or_string err
                    | Inr stats \<Rightarrow> path @ '' is not a file''))),
            [StatSync path]) \<and>
         puts (snd (uploadFileToS3 E path bucketName reg)) = 0"
  using assms
  by (simp add: uploadFileToS3_def stat_check_def new_Error_def split: sum.splits)

text \<open>A directory, and a path that does not exist.\<close>

theorem upload_rejects_missing_or_non_file_witness:
  "uploadFileToS3
     ((sample_env ''staging'' []) \<lparr>statSync := (\<lambda>p. Inr \<lparr>isFile = False\<rparr>)\<rparr>)
     ''/tmp/build'' ''staging'' None =
     (Inl (JsError ''Error'' ''Cannot access local file: /tmp/build. /tmp/build is not a file''),
      [StatSync ''/tmp/build'']) \<and>
   uploadFileToS3
     ((sample_env ''staging'' [])
        \<lparr>statSync := (\<lambda>p. Inl (JsError ''Error'' ''ENOENT: no such file or directory''))\<rparr>)
     ''/tmp/gone'' ''staging'' None =
     (Inl (JsError ''Error''
        ''Cannot access local file: /tmp/gone. ENOENT: no such file or directory''),
      [StatSync ''/tmp/gone''])"
proof -
  let ?D = "(sample_env ''staging'' []) \<lparr>statSync := (\<lambda>p. Inr \<lparr>isFile = False\<rparr>)\<rparr>"
  let ?M = "(sample_env ''staging'' [])
        \<lparr>statSync := (\<lambda>p. Inl (JsError ''Error'' ''ENOENT: no such file or directory''))\<rparr>"
  have d: "case statSync ?D ''/tmp/build'' of Inl err \<Rightarrow> True | Inr stats \<Rightarrow> \<not> isFile stats"
    by (simp add: sample_env_def)
  have m: "case statSync ?M ''/tmp/gone'' of Inl err \<Rightarrow> True | Inr stats \<Rightarrow> \<not> isFile stats"
    by (simp add: sample_env_def)
  from upload_rejects_missing_or_non_file [OF d, of "''staging''" None]
       upload_rejects_missing_or_non_file [OF m, of "''staging''" None]
  show ?thesis by (simp add: new_Error_def sample_env_def)
qed

text \<open>
  Claim C10. When the stat check passes but reading the file throws, \<^verbatim>\<open>uploadFileToS3\<close>
  rejects with \<open>Failed to upload file to S3: \<close> and the cause, the message of the second
  \<^verbatim>\<open>try\<close> block, although no put has been issued.
\<close>

theorem upload_read_failure_is_staging_failure:
  assumes "statSync E path = Inr stats" and "isFile stats"
    and "readFileSync E path = Inl err"
  shows "uploadFileToS3 E path bucketName reg =
           (Inl (new_Error (''Failed to upload file to S3: '' @ message_or_string err)),
            [StatSync path,
             Info (''Uploading '' @ path @ '' to s3://'' @ strip_s3_scheme bucketName @ ''/'' @
                   staging_key (date_now E) path),
             ReadFileSync path]) \<and>
         puts (snd (uploadFileToS3 E path bucketName reg)) = 0"
  using assms
  by (simp add: uploadFileToS3_def stat_check_def read_and_put_def)

text \<open>The file disappears between the stat call and the read.\<close>

theorem upload_read_failure_is_staging_failure_witness:
  "fst (uploadFileToS3
          ((sample_env ''staging'' [])
             \<lparr>readFileSync := (\<lambda>p. Inl (JsError ''Error'' ''EACCES: permission denied''))\<rparr>)
          ''/tmp/build/app.tar'' ''staging'' None) =
     Inl (JsError ''Error'' ''Failed to upload file to S3: EACCES: permission denied'') \<and>
   puts (snd (uploadFileToS3
          ((sample_env ''staging'' [])
             \<lparr>readFileSync := (\<lambda>p. Inl (JsError ''Error'' ''EACCES: permission denied''))\<rparr>)
          ''/tmp/build/app.tar'' ''staging'' None)) = 0"
proof -
  let ?E = "(sample_env ''staging'' [])
             \<lparr>readFileSync := (\<lambda>p. Inl (JsError ''Error'' ''EACCES: permission denied''))\<rparr>"
  have h1: "statSync ?E ''/tmp/build/app.tar'' = Inr \<lparr>isFile = True\<rparr>"
    by (simp add: sample_env_def)
  have h2: "isFile \<lparr>isFile = True\<rparr>" by simp
  have h3: "readFileSync ?E ''/tmp/build/app.tar'' =
              Inl (JsError ''Error'' ''EACCES: permission denied'')"
    by (simp add: sample_env_def)
  from upload_read_failure_is_staging_failure [OF h1 h2 h3, of "''staging''" None]
  show ?thesis by (simp add: new_Error_def)
qed

subsection \<open>The staging key\<close>











lemma upload_success_result:
  assumes "uploadFileToS3 E path bucketName reg = (Inr r, evs)"
  shows "r = \<lparr>bucket = strip_s3_scheme bucketName, key = staging_key (date_now E) path,
              s3Uri = ''s3://'' @ strip_s3_scheme bucketName @ ''/'' @
                      staging_key (date_now E) path\<rparr>"
proof (cases "stat_check E path")
  case (Inl err)
  with assms show ?thesis by (simp add: uploadFileToS3_def)
next
  case ok: (Inr u)
  show ?thesis
  proof (cases "readFileSync E path")
    case (Inl err)
    with ok assms show ?thesis by (simp add: uploadFileToS3_def read_and_put_def)
  next
    case rd: (Inr content)
    show ?thesis
    proof (cases "s3_put_object E (client_config reg) (strip_s3_scheme bucketName)
                    (staging_key (date_now E) path) content")
      case (Inl err)
      with ok rd assms show ?thesis by (simp add: uploadFileToS3_def read_and_put_def Let_def)
    next
      case (Inr v)
      with ok rd assms show ?thesis by (simp add: uploadFileToS3_def read_and_put_def Let_def)
    qed
  qed
qed



subsection \<open>The orchestrator\<close>


lemma transfer_unfold:
  "transferFileViaSSM E instanceId s3Result remote reg =
     (case fst (send_and_wait E (client_config reg) instanceId (transfer_commands s3Result remote)) of
        Inl err \<Rightarrow> Inl (new_Error (''Failed to transfer file via SSM: '' @ message_or_string err))
      | Inr r \<Rightarrow> Inr r,
      Info (''Executing SSM command on instance '' @ instanceId @
            '' to download file from '' @ s3Uri s3Result) #
      snd (send_and_wait E (client_config reg) instanceId (transfer_commands s3Result remote)))"
  by (cases "send_and_wait E (client_config reg) instanceId (transfer_commands s3Result remote)")
     (simp add: transferFileViaSSM_def Let_def split: sum.splits)


lemma send_and_wait_dispatched:
  assumes "ssm_send_command E cfg instanceId ''AWS-RunShellScript'' commands = Inr (Some cid)"
    and "cid \<noteq> []"
  shows "send_and_wait E cfg instanceId commands =
           (fst (waitForCommandCompletion E cfg cid instanceId 60 2000),
            SsmSendCommand cfg instanceId ''AWS-RunShellScript'' commands #
            Info (''SSM Command sent with ID: '' @ cid) #
            snd (waitForCommandCompletion E cfg cid instanceId 60 2000))"
  using assms by (simp add: send_and_wait_def split_beta)

lemma ssm_requests_simps [simp]:
  "ssm_requests [] = 0"
  "ssm_requests (e # evs) =
     (if is_send_command e \<or> is_status_query e then 1 else 0) + ssm_requests evs"
  "ssm_requests (evs @ evs') = ssm_requests evs + ssm_requests evs'"
  by (simp_all add: ssm_requests_def)




lemma run_after_upload:
  assumes "getInputs E = Inr inputs"
    and "uploadFileToS3 E (localPath inputs) (intermediateS3 inputs) (region inputs) = (Inr r, evs)"
  shows "run E =
           (Inr (),
            Info ''Starting file transfer to EC2 instance via S3 and SSM'' #
            announce_inputs inputs @ [StartGroup ''Uploading file to S3''] @ evs @
            [EndGroup, StartGroup ''Transferring file to EC2 instance via SSM''] @
            snd (transferFileViaSSM E (instance_id inputs) r (remotePath inputs) (region inputs)) @
            (case fst (transferFileViaSSM E (instance_id inputs) r (remotePath inputs)
                         (region inputs)) of
               Inl err \<Rightarrow> [report_failure err]
             | Inr res \<Rightarrow> [EndGroup, Info ''File transfer completed successfully!'']))"
  using assms
  by (cases "transferFileViaSSM E (instance_id inputs) r (remotePath inputs) (region inputs)")
     (simp add: run_def split: sum.splits)


text \<open>The sample environment, evaluated once for the examples below.\<close>

lemma sample_getInputs:
  "getInputs (sample_env b answers) =
     Inr \<lparr>localPath = ''/tmp/build/app.tar'', remotePath = ''/opt/app/app.tar'',
          instance_id = ''i-0abc'', intermediateS3 = b, region = None\<rparr>"
  by (simp add: getInputs_def sample_env_def sample_inputs_def)

lemma sample_staging_key:
  "staging_key 1700000000123 ''/tmp/build/app.tar'' =
     ''github-actions-transfer/1700000000123-app.tar''"
  by (simp add: staging_key_def basename_def show_nat.simps digit_char_def)

lemma sample_upload:
  "uploadFileToS3 (sample_env b answers) ''/tmp/build/app.tar'' b None =
     (Inr \<lparr>bucket = strip_s3_scheme b,
           key = ''github-actions-transfer/1700000000123-app.tar'',
           s3Uri = ''s3://'' @ strip_s3_scheme b @
                   ''/github-actions-transfer/1700000000123-app.tar''\<rparr>,
      [StatSync ''/tmp/build/app.tar'',
       Info (''Uploading /tmp/build/app.tar to s3://'' @ strip_s3_scheme b @
             ''/github-actions-transfer/1700000000123-app.tar''),
       ReadFileSync ''/tmp/build/app.tar'',
       S3PutObject None (strip_s3_scheme b) ''github-actions-transfer/1700000000123-app.tar''
         ''payload'',
       Info (''Successfully uploaded file to s3://'' @ strip_s3_scheme b @
             ''/github-actions-transfer/1700000000123-app.tar'')])"
proof -
  have "date_now (sample_env b answers) = 1700000000123" by (simp add: sample_env_def)
  then have k: "staging_key (date_now (sample_env b answers)) ''/tmp/build/app.tar'' =
      ''github-actions-transfer/1700000000123-app.tar''"
    by (simp only: sample_staging_key)
  have st: "stat_check (sample_env b answers) ''/tmp/build/app.tar'' = Inr ()"
    by (simp add: stat_check_def sample_env_def)
  have rp: "read_and_put (sample_env b answers) None ''/tmp/build/app.tar'' (strip_s3_scheme b)
              ''github-actions-transfer/1700000000123-app.tar'' =
     (Inr \<lparr>bucket = strip_s3_scheme b,
           key = ''github-actions-transfer/1700000000123-app.tar'',
           s3Uri = ''s3://'' @ strip_s3_scheme b @
                   ''/github-actions-transfer/1700000000123-app.tar''\<rparr>,
      [ReadFileSync ''/tmp/build/app.tar'',
       S3PutObject None (strip_s3_scheme b) ''github-actions-transfer/1700000000123-app.tar''
         ''payload'',
       Info (''Successfully uploaded file to s3://'' @ strip_s3_scheme b @
             ''/github-actions-transfer/1700000000123-app.tar'')])"
    by (simp add: read_and_put_def sample_env_def Let_def)
  show ?thesis
    by (simp add: uploadFileToS3_def st k rp Let_def)
qed


lemma sample_wait_success:
  "waitForCommandCompletion (sample_env b [reply ''Success'' (Some ''ok'') None])
     None ''cmd-1'' ''i-0abc'' 60 2000 =
     (Inr \<lparr>commandId = ''cmd-1'', status = ''Success'', cmd_output = Some ''ok''\<rparr>,
      [Info ''Waiting for SSM command cmd-1 to complete...'',
       SsmGetCommandInvocation None ''cmd-1'' ''i-0abc'',
       Info ''SSM command completed successfully''])"
proof -
  let ?E = "sample_env b [reply ''Success'' (Some ''ok'') None]"
  have "attempt_body ?E None ''cmd-1'' ''i-0abc'' 60 2000 1 =
          (Return \<lparr>commandId = ''cmd-1'', status = ''Success'', cmd_output = Some ''ok''\<rparr>,
           [SsmGetCommandInvocation None ''cmd-1'' ''i-0abc'',
            Info ''SSM command completed successfully''])"
    by (simp add: attempt_body_def on_invocation_def sample_env_def scripted_def reply_def)
  then have "poll_from ?E None ''cmd-1'' ''i-0abc'' 60 2000 1 =
          (Inr \<lparr>commandId = ''cmd-1'', status = ''Success'', cmd_output = Some ''ok''\<rparr>,
           [SsmGetCommandInvocation None ''cmd-1'' ''i-0abc'',
            Info ''SSM command completed successfully''])"
    by (simp add: poll_from_return)
  then show ?thesis by (simp add: waitForCommandCompletion_def)
qed

lemma sample_send:
  "ssm_send_command (sample_env b answers) cfg i doc cs = Inr (Some ''cmd-1'')"
  by (simp add: sample_env_def)

lemma sample_transfer:
  "fst (transferFileViaSSM (sample_env b answers) ''i-0abc'' r ''/opt/app/app.tar'' None) =
     (case fst (waitForCommandCompletion (sample_env b answers) None ''cmd-1'' ''i-0abc'' 60 2000) of
        Inl err \<Rightarrow> Inl (new_Error (''Failed to transfer file via SSM: '' @ message_or_string err))
      | Inr res \<Rightarrow> Inr res)"
proof -
  have "send_and_wait (sample_env b answers) None ''i-0abc''
          (transfer_commands r ''/opt/app/app.tar'') =
        (fst (waitForCommandCompletion (sample_env b answers) None ''cmd-1'' ''i-0abc'' 60 2000),
         SsmSendCommand None ''i-0abc'' ''AWS-RunShellScript''
           (transfer_commands r ''/opt/app/app.tar'') #
         Info (''SSM Command sent with ID: '' @ ''cmd-1'') #
         snd (waitForCommandCompletion (sample_env b answers) None ''cmd-1'' ''i-0abc'' 60 2000))"
    by (rule send_and_wait_dispatched) (simp_all add: sample_send)
  then show ?thesis unfolding transfer_unfold by simp
qed







lemma wait_success_first_poll:
  assumes "ssm_get_invocation E 0 cfg cid iid = Inr ivc" and "Status ivc = Some ''Success''"
    and "1 \<le> M"
  shows "waitForCommandCompletion E cfg cid iid M d =
           (Inr \<lparr>commandId = cid, status = ''Success'',
                 cmd_output = Some (or_else (StandardOutputContent ivc) [])\<rparr>,
            [Info (''Waiting for SSM command '' @ cid @ '' to complete...''),
             SsmGetCommandInvocation cfg cid iid,
             Info ''SSM command completed successfully''])"
proof -
  have "attempt_body E cfg cid iid M d 1 =
          (Return \<lparr>commandId = cid, status = ''Success'',
                   cmd_output = Some (or_else (StandardOutputContent ivc) [])\<rparr>,
           [SsmGetCommandInvocation cfg cid iid, Info ''SSM command completed successfully''])"
    using assms(1,2) by (simp add: attempt_body_def on_invocation_def)
  from poll_from_return [OF assms(3) this] show ?thesis
    by (simp add: waitForCommandCompletion_def)
qed

text \<open>
  Claim C6, as the code has it. When staging succeeds, the submission answers with a command
  identifier and the first status query reports Success, \<^verbatim>\<open>run\<close> resolves to nothing and
  reports no failure. The locator \<^verbatim>\<open>s3Uri\<close> that \<^verbatim>\<open>uploadFileToS3\<close> produced, which is
  \<open>s3://\<close>, the bucket, a slash and the key, is the source of the copy command that is
  dispatched. The result of \<^verbatim>\<open>transferFileViaSSM\<close> holds the command identifier, the status
  and the captured standard output and nothing of the staged object.
\<close>

theorem run_success_uses_staged_locator:
  assumes "getInputs E = Inr inputs"
    and "uploadFileToS3 E (localPath inputs) (intermediateS3 inputs) (region inputs) = (Inr r, evs)"
    and "ssm_send_command E (client_config (region inputs)) (instance_id inputs)
           ''AWS-RunShellScript'' (transfer_commands r (remotePath inputs)) = Inr (Some cid)"
    and "cid \<noteq> []"
    and "ssm_get_invocation E 0 (client_config (region inputs)) cid (instance_id inputs) = Inr ivc"
    and "Status ivc = Some ''Success''"
  shows
    "run E =
       (Inr (),
        Info ''Starting file transfer to EC2 instance via S3 and SSM'' #
        announce_inputs inputs @ [StartGroup ''Uploading file to S3''] @ evs @
        [EndGroup, StartGroup ''Transferring file to EC2 instance via SSM'',
         Info (''Executing SSM command on instance '' @ instance_id inputs @
               '' to download file from '' @ s3Uri r),
         SsmSendCommand (client_config (region inputs)) (instance_id inputs)
           ''AWS-RunShellScript'' (transfer_commands r (remotePath inputs)),
         Info (''SSM Command sent with ID: '' @ cid),
         Info (''Waiting for SSM command '' @ cid @ '' to complete...''),
         SsmGetCommandInvocation (client_config (region inputs)) cid (instance_id inputs),
         Info ''SSM command completed successfully'',
         EndGroup,
         Info ''File transfer completed successfully!'']) \<and>
     transfer_commands r (remotePath inputs) ! 1 =
       ''aws s3 cp '' @ s3Uri r @ '' '' @ remotePath inputs \<and>
     s3Uri r = ''s3://'' @ bucket r @ ''/'' @ key r \<and>
     fst (transferFileViaSSM E (instance_id inputs) r (remotePath inputs) (region inputs)) =
       Inr \<lparr>commandId = cid, status = ''Success'',
            cmd_output = Some (or_else (StandardOutputContent ivc) [])\<rparr>"
proof -
  let ?cfg = "client_config (region inputs)"
  have w: "waitForCommandCompletion E ?cfg cid (instance_id inputs) 60 2000 =
           (Inr \<lparr>commandId = cid, status = ''Success'',
                 cmd_output = Some (or_else (StandardOutputContent ivc) [])\<rparr>,
            [Info (''Waiting for SSM command '' @ cid @ '' to complete...''),
             SsmGetCommandInvocation ?cfg cid (instance_id inputs),
             Info ''SSM command completed successfully''])"
    by (rule wait_success_first_poll [OF assms(5,6)]) simp
  have sw: "send_and_wait E ?cfg (instance_id inputs) (transfer_commands r (remotePath inputs)) =
           (Inr \<lparr>commandId = cid, status = ''Success'',
                 cmd_output = Some (or_else (StandardOutputContent ivc) [])\<rparr>,
            [SsmSendCommand ?cfg (instance_id inputs) ''AWS-RunShellScript''
               (transfer_commands r (remotePath inputs)),
             Info (''SSM Command sent with ID: '' @ cid),
             Info (''Waiting for SSM command '' @ cid @ '' to complete...''),
             SsmGetCommandInvocation ?cfg cid (instance_id inputs),
             Info ''SSM command completed successfully''])"
    unfolding send_and_wait_dispatched [OF assms(3,4)] w by simp
  have tr: "transferFileViaSSM E (instance_id inputs) r (remotePath inputs) (region inputs) =
           (Inr \<lparr>commandId = cid, status = ''Success'',
                 cmd_output = Some (or_else (StandardOutputContent ivc) [])\<rparr>,
            [Info (''Executing SSM command on instance '' @ instance_id inputs @
                   '' to download file from '' @ s3Uri r),
             SsmSendCommand ?cfg (instance_id inputs) ''AWS-RunShellScript''
               (transfer_commands r (remotePath inputs)),
             Info (''SSM Command sent with ID: '' @ cid),
             Info (''Waiting for SSM command '' @ cid @ '' to complete...''),
             SsmGetCommandInvocation ?cfg cid (instance_id inputs),
             Info ''SSM command completed successfully''])"
    unfolding transfer_unfold sw by simp
  have run_eq: "run E =
       (Inr (),
        Info ''Starting file transfer to EC2 instance via S3 and SSM'' #
        announce_inputs inputs @ [StartGroup ''Uploading file to S3''] @ evs @
        [EndGroup, StartGroup ''Transferring file to EC2 instance via SSM'',
         Info (''Executing SSM command on instance '' @ instance_id inputs @
               '' to download file from '' @ s3Uri r),
         SsmSendCommand ?cfg (instance_id inputs)
           ''AWS-RunShellScript'' (transfer_commands r (remotePath inputs)),
         Info (''SSM Command sent with ID: '' @ cid),
         Info (''Waiting for SSM command '' @ cid @ '' to complete...''),
         SsmGetCommandInvocation ?cfg cid (instance_id inputs),
         Info ''SSM command completed successfully'',
         EndGroup,
         Info ''File transfer completed successfully!''])"
    unfolding run_after_upload [OF assms(1,2)] tr by simp
  have cmd: "transfer_commands r (remotePath inputs) ! 1 =
       ''aws s3 cp '' @ s3Uri r @ '' '' @ remotePath inputs"
    by (simp add: transfer_commands_def)
  from upload_success_result [OF assms(2)]
  have uri: "s3Uri r = ''s3://'' @ bucket r @ ''/'' @ key r" by simp
  from run_eq cmd uri tr show ?thesis by simp
qed


text \<open>A whole successful run, the bucket given with its \<open>s3://\<close> scheme.\<close>

theorem run_success_uses_staged_locator_witness:
  "run (sample_env ''s3://staging'' [reply ''Success'' (Some ''ok'') None]) =
     (Inr (),
      [Info ''Starting file transfer to EC2 instance via S3 and SSM'',
       Info ''Local path: /tmp/build/app.tar'',
       Info ''Remote path: /opt/app/app.tar'',
       Info ''Instance ID: i-0abc'',
       Info ''S3 bucket: s3://staging'',
       StartGroup ''Uploading file to S3'',
       StatSync ''/tmp/build/app.tar'',
       Info ''Uploading /tmp/build/app.tar to s3://staging/github-actions-transfer/1700000000123-app.tar'',
       ReadFileSync ''/tmp/build/app.tar'',
       S3PutObject None ''staging'' ''github-actions-transfer/1700000000123-app.tar'' ''payload'',
       Info ''Successfully uploaded file to s3://staging/github-actions-transfer/1700000000123-app.tar'',
       EndGroup,
       StartGroup ''Transferring file to EC2 instance via SSM'',
       Info ''Executing SSM command on instance i-0abc to download file from s3://staging/github-actions-transfer/1700000000123-app.tar'',
       SsmSendCommand None ''i-0abc'' ''AWS-RunShellScript''
         [''mkdir -p $(dirname /opt/app/app.tar)'',
          ''aws s3 cp s3://staging/github-actions-transfer/1700000000123-app.tar /opt/app/app.tar'',
          ''echo \"File transferred successfully to /opt/app/app.tar\"''],
       Info ''SSM Command sent with ID: cmd-1'',
       Info ''Waiting for SSM command cmd-1 to complete...'',
       SsmGetCommandInvocation None ''cmd-1'' ''i-0abc'',
       Info ''SSM command completed successfully'',
       EndGroup,
       Info ''File transfer completed successfully!''])"
proof -
  let ?E = "sample_env ''s3://staging'' [reply ''Success'' (Some ''ok'') None]"
  let ?inputs = "\<lparr>localPath = ''/tmp/build/app.tar'', remotePath = ''/opt/app/app.tar'',
          instance_id = ''i-0abc'', intermediateS3 = ''s3://staging'', region = None\<rparr>"
  let ?r = "\<lparr>bucket = ''staging'',
           key = ''github-actions-transfer/1700000000123-app.tar'',
           s3Uri = ''s3://staging/github-actions-transfer/1700000000123-app.tar''\<rparr>"
  let ?evs = "[StatSync ''/tmp/build/app.tar'',
       Info ''Uploading /tmp/build/app.tar to s3://staging/github-actions-transfer/1700000000123-app.tar'',
       ReadFileSync ''/tmp/build/app.tar'',
       S3PutObject None ''staging'' ''github-actions-transfer/1700000000123-app.tar'' ''payload'',
       Info ''Successfully uploaded file to s3://staging/github-actions-transfer/1700000000123-app.tar'']"
  let ?ivc = "\<lparr>Status = Some ''Success'', StandardOutputContent = Some ''ok'',
               StandardErrorContent = None\<rparr>"
  have strip: "strip_s3_scheme ''s3://staging'' = ''staging''"
    by (simp add: strip_s3_scheme_def)
  have h1: "getInputs ?E = Inr ?inputs" by (rule sample_getInputs)
  have h2: "uploadFileToS3 ?E (localPath ?inputs) (intermediateS3 ?inputs) (region ?inputs) =
              (Inr ?r, ?evs)"
    using sample_upload [of "''s3://staging''" "[reply ''Success'' (Some ''ok'') None]"]
    by (simp add: strip)
  have h3: "ssm_send_command ?E (client_config (region ?inputs)) (instance_id ?inputs)
           ''AWS-RunShellScript'' (transfer_commands ?r (remotePath ?inputs)) = Inr (Some ''cmd-1'')"
    by (rule sample_send)
  have h4: "''cmd-1'' \<noteq> []" by simp
  have h5: "ssm_get_invocation ?E 0 (client_config (region ?inputs)) ''cmd-1''
              (instance_id ?inputs) = Inr ?ivc"
    by (simp add: sample_env_def scripted_def reply_def)
  have h6: "Status ?ivc = Some ''Success''" by simp
  from run_success_uses_staged_locator [OF h1 h2 h3 h4 h5 h6]
  have "run ?E =
       (Inr (),
        Info ''Starting file transfer to EC2 instance via S3 and SSM'' #
        announce_inputs ?inputs @ [StartGroup ''Uploading file to S3''] @ ?evs @
        [EndGroup, StartGroup ''Transferring file to EC2 instance via SSM'',
         Info (''Executing SSM command on instance '' @ instance_id ?inputs @
               '' to download file from '' @ s3Uri ?r),
         SsmSendCommand (client_config (region ?inputs)) (instance_id ?inputs)
           ''AWS-RunShellScript'' (transfer_commands ?r (remotePath ?inputs)),
         Info (''SSM Command sent with ID: '' @ ''cmd-1''),
         Info (''Waiting for SSM command '' @ ''cmd-1'' @ '' to complete...''),
         SsmGetCommandInvocation (client_config (region ?inputs)) ''cmd-1'' (instance_id ?inputs),
         Info ''SSM command completed successfully'',
         EndGroup,
         Info ''File transfer completed successfully!''])"
    by (rule conjunct1)
  then show ?thesis
    by (simp add: announce_inputs_def transfer_commands_def)
qed

text \<open>
  Claim C6 as stated fails: what the orchestrator returns embeds no locator. Two runs that
  stage into different buckets, and so under different locators, resolve to the same nothing,
  and \<^verbatim>\<open>transferFileViaSSM\<close> gives the same result for both staged objects.
\<close>

theorem run_result_holds_no_locator:
  "fst (uploadFileToS3 (sample_env ''bucket-a'' [reply ''Success'' (Some ''ok'') None])
          ''/tmp/build/app.tar'' ''bucket-a'' None) =
     Inr \<lparr>bucket = ''bucket-a'', key = ''github-actions-transfer/1700000000123-app.tar'',
          s3Uri = ''s3://bucket-a/github-actions-transfer/1700000000123-app.tar''\<rparr> \<and>
   fst (uploadFileToS3 (sample_env ''bucket-b'' [reply ''Success'' (Some ''ok'') None])
          ''/tmp/build/app.tar'' ''bucket-b'' None) =
     Inr \<lparr>bucket = ''bucket-b'', key = ''github-actions-transfer/1700000000123-app.tar'',
          s3Uri = ''s3://bucket-b/github-actions-transfer/1700000000123-app.tar''\<rparr> \<and>
   fst (run (sample_env ''bucket-a'' [reply ''Success'' (Some ''ok'') None])) = Inr () \<and>
   fst (run (sample_env ''bucket-b'' [reply ''Success'' (Some ''ok'') None])) = Inr () \<and>
   fst (transferFileViaSSM (sample_env ''bucket-a'' [reply ''Success'' (Some ''ok'') None])
          ''i-0abc''
          \<lparr>bucket = ''bucket-a'', key = ''github-actions-transfer/1700000000123-app.tar'',
           s3Uri = ''s3://bucket-a/github-actions-transfer/1700000000123-app.tar''\<rparr>
          ''/opt/app/app.tar'' None) =
     Inr \<lparr>commandId = ''cmd-1'', status = ''Success'', cmd_output = Some ''ok''\<rparr> \<and>
   fst (transferFileViaSSM (sample_env ''bucket-b'' [reply ''Success'' (Some ''ok'') None])
          ''i-0abc''
          \<lparr>bucket = ''bucket-b'', key = ''github-actions-transfer/1700000000123-app.tar'',
           s3Uri = ''s3://bucket-b/github-actions-transfer/1700000000123-app.tar''\<rparr>
          ''/opt/app/app.tar'' None) =
     Inr \<lparr>commandId = ''cmd-1'', status = ''Success'', cmd_output = Some ''ok''\<rparr>"
proof (intro conjI)
  show "fst (uploadFileToS3 (sample_env ''bucket-a'' [reply ''Success'' (Some ''ok'') None])
          ''/tmp/build/app.tar'' ''bucket-a'' None) =
     Inr \<lparr>bucket = ''bucket-a'', key = ''github-actions-transfer/1700000000123-app.tar'',
          s3Uri = ''s3://bucket-a/github-actions-transfer/1700000000123-app.tar''\<rparr>"
    by (simp add: sample_upload strip_s3_scheme_def)
  show "fst (uploadFileToS3 (sample_env ''bucket-b'' [reply ''Success'' (Some ''ok'') None])
          ''/tmp/build/app.tar'' ''bucket-b'' None) =
     Inr \<lparr>bucket = ''bucket-b'', key = ''github-actions-transfer/1700000000123-app.tar'',
          s3Uri = ''s3://bucket-b/github-actions-transfer/1700000000123-app.tar''\<rparr>"
    by (simp add: sample_upload strip_s3_scheme_def)
  show "fst (run (sample_env ''bucket-a'' [reply ''Success'' (Some ''ok'') None])) = Inr ()"
    by (simp add: run_def)
  show "fst (run (sample_env ''bucket-b'' [reply ''Success'' (Some ''ok'') None])) = Inr ()"
    by (simp add: run_def)
  show "fst (transferFileViaSSM (sample_env ''bucket-a'' [reply ''Success'' (Some ''ok'') None])
          ''i-0abc''
          \<lparr>bucket = ''bucket-a'', key = ''github-actions-transfer/1700000000123-app.tar'',
           s3Uri = ''s3://bucket-a/github-actions-transfer/1700000000123-app.tar''\<rparr>
          ''/opt/app/app.tar'' None) =
     Inr \<lparr>commandId = ''cmd-1'', status = ''Success'', cmd_output = Some ''ok''\<rparr>"
    unfolding sample_transfer by (simp add: sample_wait_success)
  show "fst (transferFileViaSSM (sample_env ''bucket-b'' [reply ''Success'' (Some ''ok'') None])
          ''i-0abc''
          \<lparr>bucket = ''bucket-b'', key = ''github-actions-transfer/1700000000123-app.tar'',
           s3Uri = ''s3://bucket-b/github-actions-transfer/1700000000123-app.tar''\<rparr>
          ''/opt/app/app.tar'' None) =
     Inr \<lparr>commandId = ''cmd-1'', status = ''Success'', cmd_output = Some ''ok''\<rparr>"
    unfolding sample_transfer by (simp add: sample_wait_success)
qed

end
